theory Spec2Isabelle
  imports Main "HOL-Library.AList"
begin

section \<open>JavaScript values\<close>

text \<open>
  The adaptee (azure-platform-adaptee.ts) handles database items as plain JavaScript
  objects: it reads properties by computed name, spreads, deletes and compares them with
  \<open>!==\<close>, and relies on truthiness. The tables of this system hold flat records, so a
  property value is a primitive. Numbers are the integers (identifiers, time stamps in
  milliseconds, times to live), together with NaN, which \<open>undefined * 1000\<close> produces.
\<close>

datatype jsval = JUndefined | JNull | JBool bool | JNum int | JNaN | JStr string

type_synonym fields = "(string \<times> jsval) list"

fun truthy :: "jsval \<Rightarrow> bool" where
  "truthy JUndefined = False"
| "truthy JNull = False"
| "truthy (JBool b) = b"
| "truthy (JNum n) = (n \<noteq> 0)"
| "truthy JNaN = False"
| "truthy (JStr s) = (s \<noteq> [])"

definition js_or :: "jsval \<Rightarrow> jsval \<Rightarrow> jsval" where
  "js_or a b = (if truthy a then a else b)"

definition js_and :: "jsval \<Rightarrow> jsval \<Rightarrow> jsval" where
  "js_and a b = (if truthy a then b else a)"

text \<open>\<open>a === b\<close> on primitives: NaN differs from everything, itself included.\<close>

fun strict_eq :: "jsval \<Rightarrow> jsval \<Rightarrow> bool" where
  "strict_eq JUndefined JUndefined = True"
| "strict_eq JNull JNull = True"
| "strict_eq (JBool a) (JBool b) = (a = b)"
| "strict_eq (JNum a) (JNum b) = (a = b)"
| "strict_eq (JStr a) (JStr b) = (a = b)"
| "strict_eq _ _ = False"

text \<open>Decimal digits of a natural number, most significant first.\<close>

fun string_of_nat :: "nat \<Rightarrow> string" where
  "string_of_nat n =
     (if n < 10 then [''0123456789'' ! n]
      else string_of_nat (n div 10) @ [''0123456789'' ! (n mod 10)])"

declare string_of_nat.simps [simp del]

definition string_of_int :: "int \<Rightarrow> string" where
  "string_of_int i = (if i < 0 then CHR ''-'' # string_of_nat (nat (- i)) else string_of_nat (nat i))"

text \<open>\<open>String(v)\<close>.\<close>

fun ToString :: "jsval \<Rightarrow> string" where
  "ToString JUndefined = ''undefined''"
| "ToString JNull = ''null''"
| "ToString (JBool b) = (if b then ''true'' else ''false'')"
| "ToString (JNum n) = string_of_int n"
| "ToString JNaN = ''NaN''"
| "ToString (JStr s) = s"

text \<open>The value of a decimal digit: its position in \<open>0123456789\<close>.\<close>

fun position :: "char \<Rightarrow> string \<Rightarrow> nat \<Rightarrow> nat option" where
  "position c [] i = None"
| "position c (d # ds) i = (if c = d then Some i else position c ds (Suc i))"

definition digit_of_char :: "char \<Rightarrow> nat option" where
  "digit_of_char c = position c ''0123456789'' 0"

text \<open>
  String to number, on the empty string (which is 0) and on strings of decimal digits.
  The other numeric literals of the language (signs, fractions, exponents, radix
  prefixes, surrounding blanks) denote numbers this model does not have; they read as
  NaN here. No function below applies a numeric operator to a nonempty string as long
  as the properties declared \<open>number\<close> hold numbers, \<open>undefined\<close> or \<open>null\<close>.
\<close>

fun digits_value :: "nat \<Rightarrow> string \<Rightarrow> nat option" where
  "digits_value acc [] = Some acc"
| "digits_value acc (c # cs) =
     (case digit_of_char c of None \<Rightarrow> None | Some d \<Rightarrow> digits_value (10 * acc + d) cs)"

definition StringToNumber :: "string \<Rightarrow> int option" where
  "StringToNumber s = map_option int (digits_value 0 s)"

text \<open>\<open>Number(v)\<close>; \<open>None\<close> is NaN.\<close>

fun ToNumber :: "jsval \<Rightarrow> int option" where
  "ToNumber JUndefined = None"
| "ToNumber JNull = Some 0"
| "ToNumber (JBool b) = Some (if b then 1 else 0)"
| "ToNumber (JNum n) = Some n"
| "ToNumber JNaN = None"
| "ToNumber (JStr s) = StringToNumber s"

text \<open>\<open>a * b\<close>.\<close>

definition js_mul :: "jsval \<Rightarrow> jsval \<Rightarrow> jsval" where
  "js_mul a b =
     (case (ToNumber a, ToNumber b) of
        (Some x, Some y) \<Rightarrow> JNum (x * y)
      | _ \<Rightarrow> JNaN)"

text \<open>\<open>a + b\<close>: concatenation as soon as one operand is a string.\<close>

fun is_string :: "jsval \<Rightarrow> bool" where
  "is_string (JStr s) = True"
| "is_string _ = False"

definition js_add :: "jsval \<Rightarrow> jsval \<Rightarrow> jsval" where
  "js_add a b =
     (if is_string a \<or> is_string b then JStr (ToString a @ ToString b)
      else (case (ToNumber a, ToNumber b) of
              (Some x, Some y) \<Rightarrow> JNum (x + y)
            | _ \<Rightarrow> JNaN))"

text \<open>\<open>a > n\<close> for a number \<open>n\<close>: false when \<open>a\<close> converts to NaN.\<close>

definition js_gt_number :: "jsval \<Rightarrow> int \<Rightarrow> bool" where
  "js_gt_number a n = (case ToNumber a of None \<Rightarrow> False | Some x \<Rightarrow> x > n)"

subsection \<open>Objects\<close>

text \<open>\<open>item[key]\<close>: a missing property reads as \<open>undefined\<close>.\<close>

definition get_prop :: "fields \<Rightarrow> string \<Rightarrow> jsval" where
  "get_prop item key = (case map_of item key of None \<Rightarrow> JUndefined | Some v \<Rightarrow> v)"

text \<open>\<open>item[key] = v\<close>.\<close>

definition set_prop :: "fields \<Rightarrow> string \<Rightarrow> jsval \<Rightarrow> fields" where
  "set_prop item key v = AList.update key v item"

text \<open>\<open>delete item[key]\<close>.\<close>

definition delete_prop :: "fields \<Rightarrow> string \<Rightarrow> fields" where
  "delete_prop item key = AList.delete key item"

text \<open>\<open>Object.keys(item)\<close>.\<close>

definition Object_keys :: "fields \<Rightarrow> string list" where
  "Object_keys item = map fst item"

section \<open>Errors\<close>

text \<open>
  db-definitions.ts declares \<open>DbErrorCode\<close> and the three error classes; the adaptee
  throws them with a code and a message. The message is left out. \<open>TypeError\<close> is what
  the runtime throws on a property access on \<open>null\<close> or \<open>undefined\<close>,
  \<open>SyntaxError\<close> what \<open>JSON.parse\<close> throws, \<open>Error\<close> the plain
  \<open>throw new Error\<close> of the source, \<open>InvalidInput\<close> what \<open>table.validateInput\<close>
  throws and \<open>OriginError\<close> a failure of a cloud API call.
\<close>

datatype DbErrorCode = NotFound | KeyConflict | InconsistentData | UnexpectedResponse

datatype error =
    DbReadError DbErrorCode
  | DbSaveError DbErrorCode
  | DbDeleteError DbErrorCode
  | Error
  | TypeError
  | SyntaxError
  | InvalidInput
  | OriginError

datatype SaveCondition = InsertOnly | UpdateOnly | Upsert

section \<open>The table descriptor\<close>

text \<open>
  \<open>Table<T>\<close> and its subclasses live in db-definitions.ts and azure-db-definitions.ts;
  the adaptee uses a table's name, the name of its primary key, \<open>validateInput\<close>
  (which throws on an invalid item), \<open>convertRecord\<close> and \<open>downcast\<close>. They are the
  fields of a descriptor that every function below takes as an argument. The adaptee
  tests the converted record for truthiness (\<open>if (item)\<close>, \<open>!itemSnapshot\<close>), so
  \<open>convertRecord\<close> may return no record (\<open>None\<close>).
\<close>

record table =
  table_name :: string
  primaryKey_name :: string
  validateInput :: "fields \<Rightarrow> bool"
  convertRecord :: "fields \<Rightarrow> fields option"
  downcast :: "fields \<Rightarrow> fields"

section \<open>The document store and the cloud API\<close>

text \<open>
  The store is an external collaborator (the statuses the adaptee tells apart are OK,
  CREATED, NOT_FOUND and any other). Its model follows the interface the adaptee
  consumes: a container for each table name, holding resources by id; read by id answers
  OK with the resource or NOT_FOUND; upsert answers OK (replaced) or CREATED with the
  stored resource, to which the store adds its revision tag \<open>_etag\<close> and its time stamp
  \<open>_ts\<close>, or 412 when an \<open>IfMatch\<close> condition does not hold; delete by id answers OK
  or NOT_FOUND. The world also records every call made to the cloud API.
\<close>

datatype origin_call =
    VmssList string string
  | VmssGet string string string

record world =
  containers :: "string \<Rightarrow> (jsval \<times> fields) list"
  etag_seq :: nat
  ts_clock :: int
  origin_log :: "origin_call list"

record response =
  statusCode :: nat
  resource :: "fields option"

abbreviation OK :: nat where "OK \<equiv> 200"
abbreviation CREATED :: nat where "CREATED \<equiv> 201"
abbreviation NOT_FOUND :: nat where "NOT_FOUND \<equiv> 404"
abbreviation PRECONDITION_FAILED :: nat where "PRECONDITION_FAILED \<equiv> 412"

definition item_read :: "world \<Rightarrow> string \<Rightarrow> jsval \<Rightarrow> response" where
  "item_read w container key =
     (case map_of (containers w container) key of
        None \<Rightarrow> \<lparr>statusCode = NOT_FOUND, resource = None\<rparr>
      | Some r \<Rightarrow> \<lparr>statusCode = OK, resource = Some r\<rparr>)"

text \<open>
  \<open>options\<close> is \<open>None\<close> when the adaptee passes \<open>false\<close>, and the condition of the
  \<open>IfMatch\<close> access condition otherwise; a condition that is \<open>undefined\<close> or \<open>null\<close>
  constrains nothing.
\<close>

definition items_upsert ::
  "world \<Rightarrow> string \<Rightarrow> fields \<Rightarrow> jsval option \<Rightarrow> response \<times> world" where
  "items_upsert w container saveItem options =
     (let key = get_prop saveItem ''id'';
          existing = map_of (containers w container) key;
          stale = (case (options, existing) of
                     (Some c, Some r) \<Rightarrow> truthy c \<and> \<not> strict_eq (get_prop r ''_etag'') c
                   | _ \<Rightarrow> False)
      in if stale then (\<lparr>statusCode = PRECONDITION_FAILED, resource = None\<rparr>, w)
         else
           (let stored = set_prop (set_prop saveItem ''_etag'' (JNum (int (etag_seq w))))
                                  ''_ts'' (JNum (ts_clock w))
            in (\<lparr>statusCode = (if existing = None then CREATED else OK),
                 resource = Some stored\<rparr>,
                w\<lparr>containers := (containers w)
                                   (container := AList.update key stored (containers w container)),
                  etag_seq := Suc (etag_seq w)\<rparr>)))"

definition item_delete :: "world \<Rightarrow> string \<Rightarrow> jsval \<Rightarrow> response \<times> world" where
  "item_delete w container key =
     (case map_of (containers w container) key of
        None \<Rightarrow> (\<lparr>statusCode = NOT_FOUND, resource = None\<rparr>, w)
      | Some r \<Rightarrow>
          (\<lparr>statusCode = OK, resource = None\<rparr>,
           w\<lparr>containers := (containers w)
                              (container := AList.delete key (containers w container))\<rparr>))"

section \<open>The consistency-checked store client\<close>

text \<open>A \<open>KeyValue\<close> is a pair of a key name and a value.\<close>

type_synonym KeyValue = "string \<times> jsval"

text \<open>
  \<open>getItemFromDb\<close> (lines 193-206). \<open>partitionKeys[0].value\<close> on an empty array is a
  property access on \<open>undefined\<close>. The spread of an absent resource is the empty object.
\<close>

definition getItemFromDb :: "table \<Rightarrow> KeyValue list \<Rightarrow> world \<Rightarrow> error + fields option" where
  "getItemFromDb tbl partitionKeys w =
     (case partitionKeys of
        [] \<Rightarrow> Inl TypeError
      | primaryKey # _ \<Rightarrow>
          (let itemResponse = item_read w (table_name tbl) (snd primaryKey)
           in if statusCode itemResponse = OK then
                Inr (convertRecord tbl (case resource itemResponse of None \<Rightarrow> [] | Some r \<Rightarrow> r))
              else if statusCode itemResponse = NOT_FOUND then Inl (DbReadError NotFound)
              else Inl (DbReadError UnexpectedResponse)))"

text \<open>
  Lines 312-322 of \<open>saveItemToDb\<close>: the object handed to the store. The id is
  \<open>((item.id || Number(item.id) === 0) && item.id) || String(item[pk])\<close>.
\<close>

definition Number_is_zero :: "jsval \<Rightarrow> bool" where
  "Number_is_zero v = (ToNumber v = Some 0)"

definition saveItem_id :: "table \<Rightarrow> fields \<Rightarrow> jsval" where
  "saveItem_id tbl item =
     js_or (js_and (js_or (get_prop item ''id'') (JBool (Number_is_zero (get_prop item ''id''))))
                   (get_prop item ''id''))
           (JStr (ToString (get_prop item (primaryKey_name tbl))))"

definition saveItem_of :: "table \<Rightarrow> fields \<Rightarrow> fields" where
  "saveItem_of tbl item =
     delete_prop (delete_prop (delete_prop (delete_prop (delete_prop
       (set_prop item ''id'' (saveItem_id tbl item))
       ''_attachments'') ''_etag'') ''_rid'') ''_self'') ''_ts''"

text \<open>
  \<open>saveItemToDb\<close> (lines 258-347). The snapshot is read with no handler around the
  call, so an error of \<open>getItemFromDb\<close> leaves \<open>saveItemToDb\<close> as it is.
\<close>

definition saveItemToDb ::
  "table \<Rightarrow> fields \<Rightarrow> SaveCondition \<Rightarrow> bool \<Rightarrow> world \<Rightarrow> (error + fields option) \<times> world" where
  "saveItemToDb tbl item condition ensureDataConsistency w =
     (if \<not> validateInput tbl item then (Inl InvalidInput, w)
      else
       (case getItemFromDb tbl [(primaryKey_name tbl, get_prop item ''id'')] w of
          Inl e \<Rightarrow> (Inl e, w)
        | Inr itemSnapshot \<Rightarrow>
           (let options =
                  (if ensureDataConsistency
                   then Some (case itemSnapshot of None \<Rightarrow> JUndefined
                                                 | Some s \<Rightarrow> get_prop s ''_etag'')
                   else None)
            in if condition = UpdateOnly \<and> itemSnapshot = None
                 then (Inl (DbSaveError NotFound), w)
               else if condition = InsertOnly \<and> itemSnapshot \<noteq> None
                 then (Inl (DbSaveError KeyConflict), w)
               else if ensureDataConsistency \<and>
                       (case itemSnapshot of
                          None \<Rightarrow> False
                        | Some s \<Rightarrow> \<not> strict_eq (get_prop item (primaryKey_name tbl))
                                                  (get_prop s (primaryKey_name tbl)))
                 then (Inl (DbSaveError InconsistentData), w)
               else
                (case items_upsert w (table_name tbl) (saveItem_of tbl item) options of
                   (result, w') \<Rightarrow>
                     if statusCode result = OK \<or> statusCode result = CREATED then
                       (case resource result of
                          None \<Rightarrow> (Inl (DbSaveError UnexpectedResponse), w')
                        | Some r \<Rightarrow> (Inr (convertRecord tbl r), w'))
                     else (Inl (DbSaveError UnexpectedResponse), w')))))"

text \<open>
  \<open>deleteItemFromDb\<close> (lines 358-436). With \<open>ensureDataConsistency\<close> the snapshot is
  read under the key \<open>String(item[pk])\<close>, any \<open>DbReadError\<close> becomes a
  \<open>DbDeleteError\<close> with code \<open>NotFound\<close>, and the keys compared are those of the
  snapshot. \<open>Object.keys\<close> of no record is a TypeError.
\<close>

definition keyDiff :: "fields \<Rightarrow> fields \<Rightarrow> string list" where
  "keyDiff itemSnapshot item =
     filter (\<lambda>key. \<not> strict_eq (get_prop itemSnapshot key) (get_prop item key))
            (Object_keys itemSnapshot)"

definition deleteItemFromDb :: "table \<Rightarrow> fields \<Rightarrow> bool \<Rightarrow> world \<Rightarrow> (error + unit) \<times> world" where
  "deleteItemFromDb tbl item ensureDataConsistency w =
     (case (if ensureDataConsistency then
              (if \<not> validateInput tbl item then Inl InvalidInput
               else
                (case getItemFromDb tbl
                        [(primaryKey_name tbl, JStr (ToString (get_prop item (primaryKey_name tbl))))] w of
                   Inl e \<Rightarrow>
                     (case e of DbReadError c \<Rightarrow> Inl (DbDeleteError NotFound) | _ \<Rightarrow> Inl e)
                 | Inr itemSnapshot \<Rightarrow>
                     (case itemSnapshot of
                        None \<Rightarrow> Inl TypeError
                      | Some s \<Rightarrow>
                          if length (keyDiff s item) > 0 then Inl (DbDeleteError InconsistentData)
                          else Inr ())))
            else Inr ()) of
        Inl e \<Rightarrow> (Inl e, w)
      | Inr u \<Rightarrow>
          if strict_eq (get_prop item (primaryKey_name tbl)) JNull
            then (Inl (DbDeleteError InconsistentData), w)
          else if \<not> strict_eq (get_prop item ''id'') (get_prop item (primaryKey_name tbl))
            then (Inl (DbDeleteError InconsistentData), w)
          else
           (case item_delete w (table_name tbl) (get_prop item ''id'') of
              (deleteResponse, w') \<Rightarrow>
                if statusCode deleteResponse = OK then (Inr (), w')
                else if statusCode deleteResponse = NOT_FOUND then (Inl (DbDeleteError NotFound), w')
                else (Inl (DbDeleteError UnexpectedResponse), w')))"

section \<open>The API cache store\<close>

text \<open>\<open>Array.prototype.join\<close> on strings.\<close>

fun join :: "string \<Rightarrow> string list \<Rightarrow> string" where
  "join sep [] = []"
| "join sep [x] = x"
| "join sep (x # y # ys) = x @ sep @ join sep (y # ys)"

text \<open>\<open>generateCacheId\<close> (lines 437-440); \<open>String\<close> is the identity on a string.\<close>

definition generateCacheId :: "string \<Rightarrow> string list \<Rightarrow> string" where
  "generateCacheId api parameters = join ''-'' (api # map (\<lambda>p. ToString (JStr p)) parameters)"

record ApiCacheRequest =
  req_api :: string
  req_parameters :: "string list"
  req_ttl :: "int option"

record ApiCacheResult =
  res_id :: jsval
  res_api :: "string option"
  res_parameters :: "string list option"
  stringifiedData :: jsval
  res_ttl :: jsval
  res_cacheTime :: jsval

text \<open>An optional number as a value: \<open>undefined\<close> when it is omitted.\<close>

definition optional_number :: "int option \<Rightarrow> jsval" where
  "optional_number x = (case x of None \<Rightarrow> JUndefined | Some n \<Rightarrow> JNum n)"

text \<open>
  \<open>apiRequestReadCache\<close> (lines 446-466). \<open>now\<close> is the value of \<open>Date.now()\<close>. The
  table is \<open>new AzureApiRequestCache()\<close> in the source, declared in
  azure-db-definitions.ts: it is the argument \<open>cacheTable\<close>.
\<close>

definition timeToLive :: "ApiCacheRequest \<Rightarrow> fields \<Rightarrow> jsval" where
  "timeToLive req item = js_or (optional_number (req_ttl req)) (get_prop item ''ttl'')"

definition apiRequestReadCache ::
  "int \<Rightarrow> table \<Rightarrow> ApiCacheRequest \<Rightarrow> world \<Rightarrow> error + ApiCacheResult option" where
  "apiRequestReadCache now cacheTable req w =
     (case getItemFromDb cacheTable
             [(primaryKey_name cacheTable,
               JStr (generateCacheId (req_api req) (req_parameters req)))] w of
        Inl e \<Rightarrow> Inl e
      | Inr None \<Rightarrow> Inr None
      | Inr (Some item) \<Rightarrow>
          if js_gt_number (js_add (get_prop item ''cacheTime'')
                                  (js_mul (timeToLive req item) (JNum 1000))) now
          then Inr (Some \<lparr>res_id = get_prop item ''id'', res_api = None, res_parameters = None,
                          stringifiedData = get_prop item ''res'',
                          res_ttl = get_prop item ''ttl'',
                          res_cacheTime = get_prop item ''cacheTime''\<rparr>)
          else Inr None)"

text \<open>\<open>apiRequestDeleteCache\<close> (lines 468-477).\<close>

definition apiRequestDeleteCache ::
  "table \<Rightarrow> ApiCacheRequest \<Rightarrow> world \<Rightarrow> (error + unit) \<times> world" where
  "apiRequestDeleteCache cacheTable req w =
     (let item = downcast cacheTable
                   [(''id'', JStr (generateCacheId (req_api req) (req_parameters req))),
                    (''res'', JNull), (''cacheTime'', JNull), (''ttl'', JNull)]
      in deleteItemFromDb cacheTable item False w)"

text \<open>
  \<open>apiRequestSaveCache\<close> (lines 484-508). An api name is truthy when it is a nonempty
  string, a parameter array whenever it is there. Past the guard, \<open>generateCacheId\<close> is
  called only with both present.
\<close>

definition apiRequestSaveCache ::
  "table \<Rightarrow> ApiCacheResult \<Rightarrow> world \<Rightarrow> (error + ApiCacheResult) \<times> world" where
  "apiRequestSaveCache cacheTable res w =
     (if \<not> (truthy (res_id res) \<or>
             (\<not> truthy (res_id res) \<and> res_api res \<noteq> None \<and> res_api res \<noteq> Some [] \<and>
              res_parameters res \<noteq> None))
      then (Inl Error, w)
      else
       (case (if truthy (res_id res) then Inr (res_id res)
              else (case (res_api res, res_parameters res) of
                      (Some a, Some ps) \<Rightarrow> Inr (JStr (generateCacheId a ps))
                    | _ \<Rightarrow> Inl TypeError)) of
          Inl e \<Rightarrow> (Inl e, w)
        | Inr cacheId \<Rightarrow>
           (let item = downcast cacheTable
                         [(''id'', cacheId), (''res'', stringifiedData res),
                          (''cacheTime'', JUndefined),
                          (''ttl'', js_mul (res_ttl res) (JNum 1000))]
            in case saveItemToDb cacheTable item Upsert False w of
                 (Inl e, w') \<Rightarrow> (Inl e, w')
               | (Inr None, w') \<Rightarrow> (Inr res, w')
               | (Inr (Some savedItem), w') \<Rightarrow>
                   (Inr (res\<lparr>res_cacheTime := get_prop savedItem ''cacheTime''\<rparr>), w'))))"

section \<open>The cache policy engine\<close>

text \<open>
  The data of an API response is a JSON value; \<open>undefined\<close> is the value of a variable
  never assigned and of \<open>find\<close> without a match.
\<close>

datatype json =
    JsonUndefined | JsonNull | JsonBool bool | JsonNum int | JsonStr string
  | JsonArr "json list" | JsonObj "(string \<times> json) list"

fun truthy_json :: "json \<Rightarrow> bool" where
  "truthy_json JsonUndefined = False"
| "truthy_json JsonNull = False"
| "truthy_json (JsonBool b) = b"
| "truthy_json (JsonNum n) = (n \<noteq> 0)"
| "truthy_json (JsonStr s) = (s \<noteq> [])"
| "truthy_json (JsonArr xs) = True"
| "truthy_json (JsonObj fs) = True"

text \<open>
  What the adaptee takes from its runtime and from the cloud: the clock, the JSON codec
  (\<open>JSON_parse\<close> is \<open>None\<close> where \<open>JSON.parse\<close> throws), the test
  \<open>isFinite(Number(id))\<close> on a string, the resource group of the environment, and the
  answers of the two cloud calls (the parsed body of the list call, the response of the
  get call).
\<close>

record runtime =
  Date_now :: int
  JSON_parse :: "string \<Rightarrow> json option"
  JSON_stringify :: "json \<Rightarrow> string"
  isFinite_Number :: "string \<Rightarrow> bool"
  RESOURCE_TAG_PREFIX :: string
  vmss_list :: "string \<Rightarrow> string \<Rightarrow> error + json"
  vmss_get :: "string \<Rightarrow> string \<Rightarrow> string \<Rightarrow> error + json"

datatype ApiCacheOption =
  ReadApiFirst | ReadApiOnly | ReadCacheAndDelete | ReadCacheFirst | ReadCacheOnly

record ApiCache =
  result :: json
  cacheTime :: jsval
  ttl :: int
  hitCache :: bool

text \<open>
  The first block of \<open>requestWithCaching\<close> (lines 531-535): the cache entry, the cache
  time and the data after the read. Without a read the three variables are
  \<open>undefined\<close>; after a miss \<open>res\<close> and \<open>cacheTime\<close> are \<open>null\<close> and the data is the
  empty array.
\<close>

definition readCacheBlock ::
  "runtime \<Rightarrow> table \<Rightarrow> ApiCacheRequest \<Rightarrow> ApiCacheOption \<Rightarrow> world \<Rightarrow>
   error + (ApiCacheResult option \<times> jsval \<times> json)" where
  "readCacheBlock rt cacheTable req cacheOption w =
     (if cacheOption \<noteq> ReadApiOnly then
        (case apiRequestReadCache (Date_now rt) cacheTable req w of
           Inl e \<Rightarrow> Inl e
         | Inr None \<Rightarrow> Inr (None, JNull, JsonArr [])
         | Inr (Some res) \<Rightarrow>
             (case JSON_parse rt (ToString (stringifiedData res)) of
                None \<Rightarrow> Inl SyntaxError
              | Some d \<Rightarrow>
                  Inr (Some res, res_cacheTime res, if truthy_json d then d else JsonArr [])))
      else Inr (None, JUndefined, JsonUndefined))"

text \<open>
  \<open>requestWithCaching\<close> (lines 520-580). \<open>dataProcessor\<close> is the origin producer; it
  may fail and it may change the world (it is logged there). An assignment to a property
  of \<open>res\<close> while \<open>res\<close> is \<open>null\<close> is a TypeError.
\<close>

definition requestWithCaching ::
  "runtime \<Rightarrow> table \<Rightarrow> ApiCacheRequest \<Rightarrow> ApiCacheOption \<Rightarrow>
   (world \<Rightarrow> (error + json) \<times> world) \<Rightarrow> world \<Rightarrow> (error + ApiCache) \<times> world" where
  "requestWithCaching rt cacheTable req cacheOption dataProcessor w =
     (case readCacheBlock rt cacheTable req cacheOption w of
        Inl e \<Rightarrow> (Inl e, w)
      | Inr (res, cacheTime0, data0) \<Rightarrow>
         (let hit = (res \<noteq> None)
          in if cacheOption = ReadCacheOnly \<or> cacheOption = ReadCacheAndDelete then
               (if cacheOption = ReadCacheAndDelete \<and> res \<noteq> None then
                  (case apiRequestDeleteCache cacheTable req w of
                     (Inl e, w') \<Rightarrow> (Inl e, w')
                   | (Inr u, w') \<Rightarrow>
                       (Inr \<lparr>result = JsonNull, cacheTime = JNum 0, ttl = 600, hitCache = hit\<rparr>, w'))
                else (Inr \<lparr>result = data0, cacheTime = cacheTime0, ttl = 600, hitCache = hit\<rparr>, w))
             else if (cacheOption = ReadCacheFirst \<and> res = None) \<or> cacheOption = ReadApiOnly then
               (case dataProcessor w of
                  (Inl e, w') \<Rightarrow> (Inl e, w')
                | (Inr data, w') \<Rightarrow>
                    if truthy_json data then
                      (if cacheOption = ReadCacheFirst then
                         (case res of
                            None \<Rightarrow> (Inl TypeError, w')
                          | Some r \<Rightarrow>
                              (case apiRequestSaveCache cacheTable
                                      (r\<lparr>res_api := Some (req_api req),
                                         res_parameters := Some (req_parameters req),
                                         stringifiedData := JStr (JSON_stringify rt data),
                                         res_ttl := optional_number (req_ttl req)\<rparr>) w' of
                                 (Inl e, w'') \<Rightarrow> (Inl e, w'')
                               | (Inr r', w'') \<Rightarrow>
                                   (Inr \<lparr>result = data, cacheTime = res_cacheTime r', ttl = 600,
                                         hitCache = hit\<rparr>, w'')))
                       else (Inr \<lparr>result = data, cacheTime = cacheTime0, ttl = 600,
                                  hitCache = hit\<rparr>, w'))
                    else (Inr \<lparr>result = data, cacheTime = cacheTime0, ttl = 600, hitCache = hit\<rparr>, w'))
             else (Inr \<lparr>result = data0, cacheTime = cacheTime0, ttl = 600, hitCache = hit\<rparr>, w)))"

section \<open>The resource query functions\<close>

text \<open>The producers: one cloud call each, logged, the answer as the runtime gives it.\<close>

definition listProcessor :: "runtime \<Rightarrow> string \<Rightarrow> world \<Rightarrow> (error + json) \<times> world" where
  "listProcessor rt scalingGroupName w =
     (let w' = w\<lparr>origin_log := origin_log w @ [VmssList (RESOURCE_TAG_PREFIX rt) scalingGroupName]\<rparr>
      in case vmss_list rt (RESOURCE_TAG_PREFIX rt) scalingGroupName of
           Inl e \<Rightarrow> (Inl e, w')
         | Inr body \<Rightarrow> (Inr (if truthy_json body then body else JsonNull), w'))"

definition getProcessor :: "runtime \<Rightarrow> string \<Rightarrow> string \<Rightarrow> world \<Rightarrow> (error + json) \<times> world" where
  "getProcessor rt scalingGroupName ident w =
     (let w' = w\<lparr>origin_log := origin_log w @ [VmssGet (RESOURCE_TAG_PREFIX rt) scalingGroupName ident]\<rparr>
      in case vmss_get rt (RESOURCE_TAG_PREFIX rt) scalingGroupName ident of
           Inl e \<Rightarrow> (Inl e, w')
         | Inr response \<Rightarrow> (Inr response, w'))"

text \<open>\<open>listInstances\<close> (lines 589-611).\<close>

definition listInstances ::
  "runtime \<Rightarrow> table \<Rightarrow> string \<Rightarrow> ApiCacheOption \<Rightarrow> world \<Rightarrow> (error + ApiCache) \<times> world" where
  "listInstances rt cacheTable scalingGroupName cacheOption w =
     requestWithCaching rt cacheTable
       \<lparr>req_api = ''listInstances'', req_parameters = [scalingGroupName], req_ttl = Some 600\<rparr>
       cacheOption (listProcessor rt scalingGroupName) w"

text \<open>
  \<open>listResult.result.find(v => v.vmId && v.vmId === id)\<close>: reading \<open>vmId\<close> of
  \<open>null\<close> or \<open>undefined\<close> is a TypeError, and so is \<open>find\<close> on anything but an
  array.
\<close>

fun json_member :: "json \<Rightarrow> string \<Rightarrow> error + json" where
  "json_member JsonUndefined key = Inl TypeError"
| "json_member JsonNull key = Inl TypeError"
| "json_member (JsonObj fs) key =
     (case map_of fs key of None \<Rightarrow> Inr JsonUndefined | Some v \<Rightarrow> Inr v)"
| "json_member v key = Inr JsonUndefined"

fun find_vmId :: "string \<Rightarrow> json list \<Rightarrow> error + json" where
  "find_vmId ident [] = Inr JsonUndefined"
| "find_vmId ident (v # vs) =
     (case json_member v ''vmId'' of
        Inl e \<Rightarrow> Inl e
      | Inr vmId \<Rightarrow> if truthy_json vmId \<and> vmId = JsonStr ident then Inr v else find_vmId ident vs)"

definition result_find :: "string \<Rightarrow> json \<Rightarrow> error + json" where
  "result_find ident r = (case r of JsonArr vs \<Rightarrow> find_vmId ident vs | _ \<Rightarrow> Inl TypeError)"

text \<open>\<open>describeInstance\<close> (lines 620-657).\<close>

definition describeInstance ::
  "runtime \<Rightarrow> table \<Rightarrow> string \<Rightarrow> string \<Rightarrow> ApiCacheOption \<Rightarrow> world \<Rightarrow>
   (error + ApiCache) \<times> world" where
  "describeInstance rt cacheTable scalingGroupName ident cacheOption w =
     (if isFinite_Number rt ident then
        requestWithCaching rt cacheTable
          \<lparr>req_api = ''describeInstance'', req_parameters = [scalingGroupName, ident],
           req_ttl = Some 600\<rparr>
          cacheOption (getProcessor rt scalingGroupName ident) w
      else
       (case listInstances rt cacheTable scalingGroupName cacheOption w of
          (Inl e, w') \<Rightarrow> (Inl e, w')
        | (Inr listResult, w') \<Rightarrow>
            (case result_find ident (result listResult) of
               Inl e \<Rightarrow> (Inl e, w')
             | Inr data \<Rightarrow>
                 (Inr \<lparr>result = data, cacheTime = cacheTime listResult, ttl = ttl listResult,
                       hitCache = hitCache listResult\<rparr>, w'))))"

section \<open>Example tables, runtime and stores\<close>

text \<open>
  A settings table keyed by \<open>settingKey\<close> and the cache table keyed by \<open>id\<close>, whose
  \<open>convertRecord\<close> takes the cache time from the time stamp of the store, as the note
  in \<open>apiRequestSaveCache\<close> says.
\<close>

definition exampleTable :: table where
  "exampleTable =
     \<lparr>table_name = ''Settings'', primaryKey_name = ''settingKey'',
      validateInput = (\<lambda>item. True), convertRecord = Some, downcast = (\<lambda>r. r)\<rparr>"

definition exampleCacheTable :: table where
  "exampleCacheTable =
     \<lparr>table_name = ''ApiRequestCache'', primaryKey_name = ''id'',
      validateInput = (\<lambda>item. True),
      convertRecord = (\<lambda>r. Some (set_prop r ''cacheTime'' (get_prop r ''_ts''))),
      downcast = (\<lambda>r. r)\<rparr>"

definition exampleVms :: json where
  "exampleVms =
     JsonArr [JsonObj [(''instanceId'', JsonStr ''3''), (''vmId'', JsonStr ''vm-guid-xyz'')]]"

definition exampleRuntime :: runtime where
  "exampleRuntime =
     \<lparr>Date_now = 1000000,
      JSON_parse = (\<lambda>s. if s = ''[1]'' then Some (JsonArr [JsonNum 1]) else None),
      JSON_stringify = (\<lambda>d. ''[{}]''),
      isFinite_Number = (\<lambda>s. s = ''3''),
      RESOURCE_TAG_PREFIX = ''rg'',
      vmss_list = (\<lambda>g n. Inr exampleVms),
      vmss_get = (\<lambda>g n i. Inr (JsonObj [(''instanceId'', JsonStr i)]))\<rparr>"

definition emptyWorld :: world where
  "emptyWorld = \<lparr>containers = (\<lambda>n. []), etag_seq = 0, ts_clock = 1000, origin_log = []\<rparr>"

text \<open>A cache with one entry for listInstances(vmss_A), stored at time stamp \<open>ts\<close>.\<close>

definition cacheWorld :: "int \<Rightarrow> world" where
  "cacheWorld ts =
     \<lparr>containers = (\<lambda>n. if n = ''ApiRequestCache''
                         then [(JStr ''listInstances-vmss_A'',
                                [(''id'', JStr ''listInstances-vmss_A''), (''res'', JStr ''[1]''),
                                 (''ttl'', JNum 600000), (''_etag'', JNum 0), (''_ts'', JNum ts)])]
                         else []),
      etag_seq = 1, ts_clock = 1000000, origin_log = []\<rparr>"

definition listRequest :: ApiCacheRequest where
  "listRequest = \<lparr>req_api = ''listInstances'', req_parameters = [''vmss_A''], req_ttl = Some 600\<rparr>"


text \<open>A settings container whose one record has the same id and key.\<close>

definition consistentWorld :: world where
  "consistentWorld =
     \<lparr>containers = (\<lambda>n. if n = ''Settings''
                         then [(JStr ''k'',
                                [(''id'', JStr ''k''), (''settingKey'', JStr ''k''),
                                 (''settingValue'', JStr ''v'')])]
                         else []),
      etag_seq = 1, ts_clock = 1000, origin_log = []\<rparr>"




text \<open>A cache with one entry for describeInstance(vmss_A, 3), stored at time stamp \<open>ts\<close>.\<close>

definition instanceCacheWorld :: "int \<Rightarrow> world" where
  "instanceCacheWorld ts =
     \<lparr>containers = (\<lambda>n. if n = ''ApiRequestCache''
                         then [(JStr ''describeInstance-vmss_A-3'',
                                [(''id'', JStr ''describeInstance-vmss_A-3''), (''res'', JStr ''[1]''),
                                 (''ttl'', JNum 600000), (''_etag'', JNum 0), (''_ts'', JNum ts)])]
                         else []),
      etag_seq = 1, ts_clock = 1000000, origin_log = []\<rparr>"

section \<open>Properties of objects and of the store\<close>



lemma getItemFromDb_absent:
  "map_of (containers w (table_name tbl)) v = None \<Longrightarrow>
   getItemFromDb tbl [(k, v)] w = Inl (DbReadError NotFound)"
  by (simp add: getItemFromDb_def item_read_def)

lemma getItemFromDb_present:
  "map_of (containers w (table_name tbl)) v = Some r \<Longrightarrow>
   getItemFromDb tbl [(k, v)] w = Inr (convertRecord tbl r)"
  by (simp add: getItemFromDb_def item_read_def)






lemma deleteItemFromDb_by_id:
  assumes "primaryKey_name tbl = ''id''" and "get_prop item ''id'' = JStr k"
    and "map_of (containers w (table_name tbl)) (JStr k) = Some x"
  shows "deleteItemFromDb tbl item False w =
           (Inr (), w\<lparr>containers := (containers w)
                        (table_name tbl := AList.delete (JStr k) (containers w (table_name tbl)))\<rparr>)"
  using assms by (simp add: deleteItemFromDb_def item_delete_def)

section \<open>Properties of the cache id\<close>

lemma takeWhile_dash:
  "CHR ''-'' \<notin> set x \<Longrightarrow> takeWhile (\<lambda>c. c \<noteq> CHR ''-'') (x @ CHR ''-'' # r) = x"
  by (induction x) auto

lemma dropWhile_dash:
  "CHR ''-'' \<notin> set x \<Longrightarrow> dropWhile (\<lambda>c. c \<noteq> CHR ''-'') (x @ CHR ''-'' # r) = CHR ''-'' # r"
  by (induction x) auto

lemma join_Cons: "ys \<noteq> [] \<Longrightarrow> join ''-'' (x # ys) = x @ CHR ''-'' # join ''-'' ys"
  by (cases ys) auto

lemma join_inj:
  assumes "\<forall>x\<in>set xs. CHR ''-'' \<notin> set x" "\<forall>y\<in>set ys. CHR ''-'' \<notin> set y"
    "xs \<noteq> []" "ys \<noteq> []" "join ''-'' xs = join ''-'' ys"
  shows "xs = ys"
  using assms
proof (induction xs arbitrary: ys)
  case Nil
  then show ?case by simp
next
  case (Cons x xs)
  obtain y ys' where ys: "ys = y # ys'" using Cons.prems(4) by (cases ys) auto
  have nx: "CHR ''-'' \<notin> set x" and ny: "CHR ''-'' \<notin> set y" using Cons.prems ys by auto
  show ?case
  proof (cases "xs = []")
    case True
    note xe = this
    show ?thesis
    proof (cases "ys' = []")
      case True
      with xe Cons.prems ys show ?thesis by simp
    next
      case False
      then have "x = y @ CHR ''-'' # join ''-'' ys'"
        using Cons.prems(5) xe ys by (simp add: join_Cons)
      with nx show ?thesis by auto
    qed
  next
    case False
    note xne = this
    show ?thesis
    proof (cases "ys' = []")
      case True
      then have "y = x @ CHR ''-'' # join ''-'' xs"
        using Cons.prems(5) xne ys by (simp add: join_Cons)
      with ny show ?thesis by auto
    next
      case False
      have e: "x @ CHR ''-'' # join ''-'' xs = y @ CHR ''-'' # join ''-'' ys'"
        using Cons.prems(5) xne False ys by (simp add: join_Cons)
      have "x = y"
        using arg_cong [OF e, of "takeWhile (\<lambda>c. c \<noteq> CHR ''-'')"] nx ny
        by (simp add: takeWhile_dash)
      moreover have "join ''-'' xs = join ''-'' ys'"
        using arg_cong [OF e, of "dropWhile (\<lambda>c. c \<noteq> CHR ''-'')"] nx ny
        by (simp add: dropWhile_dash)
      ultimately show ?thesis using Cons.IH [of ys'] Cons.prems xne False ys by auto
    qed
  qed
qed

section \<open>Properties of the cache read\<close>

lemma apiRequestReadCache_absent:
  "map_of (containers w (table_name cacheTable))
     (JStr (generateCacheId (req_api req) (req_parameters req))) = None \<Longrightarrow>
   apiRequestReadCache now cacheTable req w = Inl (DbReadError NotFound)"
  by (simp add: apiRequestReadCache_def getItemFromDb_absent)

lemma apiRequestReadCache_hit_present:
  "apiRequestReadCache now cacheTable req w = Inr (Some r) \<Longrightarrow>
   \<exists>x. map_of (containers w (table_name cacheTable))
          (JStr (generateCacheId (req_api req) (req_parameters req))) = Some x"
  by (cases "map_of (containers w (table_name cacheTable))
          (JStr (generateCacheId (req_api req) (req_parameters req)))")
     (simp_all add: apiRequestReadCache_absent)

lemma readCacheBlock_miss:
  "apiRequestReadCache (Date_now rt) cacheTable req w = Inr None \<Longrightarrow> cacheOption \<noteq> ReadApiOnly \<Longrightarrow>
   readCacheBlock rt cacheTable req cacheOption w = Inr (None, JNull, JsonArr [])"
  by (simp add: readCacheBlock_def)

lemma readCacheBlock_error:
  "apiRequestReadCache (Date_now rt) cacheTable req w = Inl e \<Longrightarrow> cacheOption \<noteq> ReadApiOnly \<Longrightarrow>
   readCacheBlock rt cacheTable req cacheOption w = Inl e"
  by (simp add: readCacheBlock_def)

lemma readCacheBlock_hit:
  "apiRequestReadCache (Date_now rt) cacheTable req w = Inr (Some r) \<Longrightarrow>
   JSON_parse rt (ToString (stringifiedData r)) = Some d \<Longrightarrow> cacheOption \<noteq> ReadApiOnly \<Longrightarrow>
   readCacheBlock rt cacheTable req cacheOption w =
     Inr (Some r, res_cacheTime r, if truthy_json d then d else JsonArr [])"
  by (simp add: readCacheBlock_def)

lemma example_hit:
  "apiRequestReadCache (Date_now exampleRuntime) exampleCacheTable listRequest (cacheWorld 999000)
     = Inr (Some \<lparr>res_id = JStr ''listInstances-vmss_A'', res_api = None, res_parameters = None,
                  stringifiedData = JStr ''[1]'', res_ttl = JNum 600000,
                  res_cacheTime = JNum 999000\<rparr>)"
  by (simp add: apiRequestReadCache_def getItemFromDb_def item_read_def exampleCacheTable_def
      cacheWorld_def listRequest_def generateCacheId_def set_prop_def get_prop_def
      exampleRuntime_def timeToLive_def optional_number_def js_or_def js_gt_number_def
      js_add_def js_mul_def)

lemma example_expired:
  "apiRequestReadCache (Date_now exampleRuntime) exampleCacheTable listRequest (cacheWorld 400000)
     = Inr None"
  by (simp add: apiRequestReadCache_def getItemFromDb_def item_read_def exampleCacheTable_def
      cacheWorld_def listRequest_def generateCacheId_def set_prop_def get_prop_def
      exampleRuntime_def timeToLive_def optional_number_def js_or_def js_gt_number_def
      js_add_def js_mul_def)

lemma example_ReadCacheOnly_hit:
  "requestWithCaching exampleRuntime exampleCacheTable listRequest ReadCacheOnly
     (listProcessor exampleRuntime ''vmss_A'') (cacheWorld 999000)
   = (Inr \<lparr>result = JsonArr [JsonNum 1], cacheTime = JNum 999000, ttl = 600, hitCache = True\<rparr>,
      cacheWorld 999000)"
proof -
  have p: "JSON_parse exampleRuntime (ToString (JStr ''[1]'')) = Some (JsonArr [JsonNum 1])"
    by (simp add: exampleRuntime_def)
  show ?thesis
    using readCacheBlock_hit [OF example_hit, of "JsonArr [JsonNum 1]" ReadCacheOnly] p
    by (simp add: requestWithCaching_def)
qed

lemma example_ReadCacheOnly_expired:
  "requestWithCaching exampleRuntime exampleCacheTable listRequest ReadCacheOnly
     (listProcessor exampleRuntime ''vmss_A'') (cacheWorld 400000)
   = (Inr \<lparr>result = JsonArr [], cacheTime = JNull, ttl = 600, hitCache = False\<rparr>,
      cacheWorld 400000)"
  using readCacheBlock_miss [OF example_expired, of ReadCacheOnly]
  by (simp add: requestWithCaching_def)

lemma example_listProcessor:
  "listProcessor exampleRuntime ''vmss_A'' w
     = (Inr exampleVms, w\<lparr>origin_log := origin_log w @ [VmssList ''rg'' ''vmss_A'']\<rparr>)"
  by (simp add: listProcessor_def exampleRuntime_def exampleVms_def)

section \<open>The policy engine under ReadCacheFirst\<close>

text \<open>
  Claim C1. Under ReadCacheFirst with no valid cache entry the engine is to call the
  origin producer and, when the producer returns data, to persist the data and to return
  it with hitCache false and the cache time of the write. The code does neither: when
  the entry is in the store but expired, \<open>res\<close> is \<open>null\<close> after the read, the producer
  is called, and the assignment \<open>res.api = req.api\<close> then fails with a TypeError before
  anything is saved; when the entry is not in the store at all, the NotFound error of
  \<open>getItemFromDb\<close> leaves \<open>requestWithCaching\<close> before the producer is called.
\<close>

theorem ReadCacheFirst_miss_never_persists:
  "(apiRequestReadCache (Date_now rt) cacheTable req w = Inr None \<longrightarrow>
      dataProcessor w = (Inr data, w') \<longrightarrow> truthy_json data \<longrightarrow>
      requestWithCaching rt cacheTable req ReadCacheFirst dataProcessor w = (Inl TypeError, w'))
   \<and> (map_of (containers w (table_name cacheTable))
         (JStr (generateCacheId (req_api req) (req_parameters req))) = None \<longrightarrow>
      requestWithCaching rt cacheTable req ReadCacheFirst dataProcessor w
        = (Inl (DbReadError NotFound), w))"
  by (simp add: requestWithCaching_def readCacheBlock_miss readCacheBlock_error
      apiRequestReadCache_absent)

theorem ReadCacheFirst_miss_never_persists_witness:
  "requestWithCaching exampleRuntime exampleCacheTable listRequest ReadCacheFirst
     (listProcessor exampleRuntime ''vmss_A'') (cacheWorld 400000)
   = (Inl TypeError, (cacheWorld 400000)\<lparr>origin_log := [VmssList ''rg'' ''vmss_A'']\<rparr>)
   \<and> requestWithCaching exampleRuntime exampleCacheTable listRequest ReadCacheFirst
     (listProcessor exampleRuntime ''vmss_A'') emptyWorld
   = (Inl (DbReadError NotFound), emptyWorld)"
proof -
  have l: "listProcessor exampleRuntime ''vmss_A'' (cacheWorld 400000)
     = (Inr exampleVms, (cacheWorld 400000)\<lparr>origin_log := [VmssList ''rg'' ''vmss_A'']\<rparr>)"
    by (simp add: example_listProcessor) (simp add: cacheWorld_def)
  have e: "map_of (containers emptyWorld (table_name exampleCacheTable))
         (JStr (generateCacheId (req_api listRequest) (req_parameters listRequest))) = None"
    by (simp add: emptyWorld_def)
  show ?thesis
    using ReadCacheFirst_miss_never_persists
        [where rt = exampleRuntime and cacheTable = exampleCacheTable and req = listRequest
           and w = "cacheWorld 400000" and dataProcessor = "listProcessor exampleRuntime ''vmss_A''"
           and data = exampleVms
           and w' = "(cacheWorld 400000)\<lparr>origin_log := [VmssList ''rg'' ''vmss_A'']\<rparr>"]
      ReadCacheFirst_miss_never_persists
        [where rt = exampleRuntime and cacheTable = exampleCacheTable and req = listRequest
           and w = emptyWorld and dataProcessor = "listProcessor exampleRuntime ''vmss_A''"]
      example_expired l e
    by (simp add: exampleVms_def)
qed

section \<open>Saving to a missing record\<close>

text \<open>
  Claim C2. \<open>saveItemToDb\<close> is to read the current snapshot with absence not being an
  error, so that a save on a missing id succeeds with Upsert and with InsertOnly and fails
  with NotFound only with UpdateOnly. In the code the snapshot is read by
  \<open>getItemFromDb\<close>, which throws a read error with code NotFound for a missing record,
  and \<open>saveItemToDb\<close> does not catch it: a save on a missing id fails with that read
  error whatever the condition, and the store is not written.
\<close>

theorem saveItemToDb_missing_record:
  assumes "validateInput tbl item"
    and "map_of (containers w (table_name tbl)) (get_prop item ''id'') = None"
  shows "saveItemToDb tbl item condition ensureDataConsistency w = (Inl (DbReadError NotFound), w)"
  using assms by (simp add: saveItemToDb_def getItemFromDb_absent)

theorem saveItemToDb_missing_record_witness:
  "saveItemToDb exampleTable [(''id'', JStr ''a''), (''settingKey'', JStr ''a'')] Upsert True emptyWorld
     = (Inl (DbReadError NotFound), emptyWorld)
   \<and> saveItemToDb exampleTable [(''id'', JStr ''a''), (''settingKey'', JStr ''a'')] InsertOnly True emptyWorld
     = (Inl (DbReadError NotFound), emptyWorld)"
  using saveItemToDb_missing_record
      [of exampleTable "[(''id'', JStr ''a''), (''settingKey'', JStr ''a'')]" emptyWorld Upsert True]
    saveItemToDb_missing_record
      [of exampleTable "[(''id'', JStr ''a''), (''settingKey'', JStr ''a'')]" emptyWorld InsertOnly True]
  by (simp add: exampleTable_def emptyWorld_def get_prop_def)

section \<open>The policy engine under ReadApiFirst\<close>

text \<open>
  Claim C3. Under ReadApiFirst every invocation is to call the origin producer and to
  return its result, never persisting. In the code the producer is called only under
  ReadCacheFirst after a miss and under ReadApiOnly, so under ReadApiFirst it is never
  called: the engine does exactly what it does under ReadCacheOnly, whatever the
  producer is, and leaves the world (the store and the log of origin calls) as it was.
\<close>

theorem ReadApiFirst_never_calls_origin:
  "requestWithCaching rt cacheTable req ReadApiFirst dataProcessor w
     = requestWithCaching rt cacheTable req ReadCacheOnly dataProcessor' w
   \<and> snd (requestWithCaching rt cacheTable req ReadApiFirst dataProcessor w) = w"
  by (simp add: requestWithCaching_def readCacheBlock_def
      split: sum.splits option.splits prod.splits)

theorem ReadApiFirst_never_calls_origin_witness:
  "requestWithCaching exampleRuntime exampleCacheTable listRequest ReadApiFirst
     (listProcessor exampleRuntime ''vmss_A'') (cacheWorld 999000)
   = (Inr \<lparr>result = JsonArr [JsonNum 1], cacheTime = JNum 999000, ttl = 600, hitCache = True\<rparr>,
      cacheWorld 999000)
   \<and> requestWithCaching exampleRuntime exampleCacheTable listRequest ReadApiFirst
     (listProcessor exampleRuntime ''vmss_A'') (cacheWorld 400000)
   = (Inr \<lparr>result = JsonArr [], cacheTime = JNull, ttl = 600, hitCache = False\<rparr>,
      cacheWorld 400000)"
  using ReadApiFirst_never_calls_origin
      [of exampleRuntime exampleCacheTable listRequest "listProcessor exampleRuntime ''vmss_A''"
          "cacheWorld 999000" "listProcessor exampleRuntime ''vmss_A''"]
    ReadApiFirst_never_calls_origin
      [of exampleRuntime exampleCacheTable listRequest "listProcessor exampleRuntime ''vmss_A''"
          "cacheWorld 400000" "listProcessor exampleRuntime ''vmss_A''"]
    example_ReadCacheOnly_hit example_ReadCacheOnly_expired
  by simp

section \<open>The policy engine under ReadCacheAndDelete\<close>

text \<open>
  Claim C4, as stated: with a valid cache entry, ReadCacheAndDelete deletes the entry and
  returns the payload the entry had before the delete, with cacheTime 0 and hitCache
  true, without calling the origin. It fails on the payload: the code sets
  \<open>data = null\<close> after the delete. The cached payload of the example is \<open>[1]\<close>, as
  ReadCacheOnly returns it; ReadCacheAndDelete returns \<open>null\<close>.
\<close>

theorem ReadCacheAndDelete_drops_payload:
  "fst (requestWithCaching exampleRuntime exampleCacheTable listRequest ReadCacheOnly
          (listProcessor exampleRuntime ''vmss_A'') (cacheWorld 999000))
     = Inr \<lparr>result = JsonArr [JsonNum 1], cacheTime = JNum 999000, ttl = 600, hitCache = True\<rparr>
   \<and> fst (requestWithCaching exampleRuntime exampleCacheTable listRequest ReadCacheAndDelete
          (listProcessor exampleRuntime ''vmss_A'') (cacheWorld 999000))
     = Inr \<lparr>result = JsonNull, cacheTime = JNum 0, ttl = 600, hitCache = True\<rparr>"
proof -
  have p: "JSON_parse exampleRuntime (ToString (JStr ''[1]'')) = Some (JsonArr [JsonNum 1])"
    by (simp add: exampleRuntime_def)
  have d: "apiRequestDeleteCache exampleCacheTable listRequest (cacheWorld 999000) =
      (Inr (), (cacheWorld 999000)\<lparr>containers := (containers (cacheWorld 999000))
          (''ApiRequestCache'' := [])\<rparr>)"
    by (simp add: apiRequestDeleteCache_def deleteItemFromDb_def item_delete_def
        exampleCacheTable_def listRequest_def generateCacheId_def get_prop_def cacheWorld_def)
  have b: "fst (requestWithCaching exampleRuntime exampleCacheTable listRequest ReadCacheAndDelete
          (listProcessor exampleRuntime ''vmss_A'') (cacheWorld 999000))
     = Inr \<lparr>result = JsonNull, cacheTime = JNum 0, ttl = 600, hitCache = True\<rparr>"
    using readCacheBlock_hit [OF example_hit, of "JsonArr [JsonNum 1]" ReadCacheAndDelete] p
    by (simp add: requestWithCaching_def d)
  show ?thesis using b by (simp add: example_ReadCacheOnly_hit)
qed

text \<open>
  Claim C4, amended: with a valid cache entry (and a cache table keyed by \<open>id\<close> whose
  \<open>downcast\<close> keeps the id), ReadCacheAndDelete deletes the entry from the store and
  returns a \<open>null\<close> result with cacheTime 0 and hitCache true; the origin producer is
  not called (the world changes in the cache container only).
\<close>

theorem ReadCacheAndDelete_hit_returns_null:
  assumes "apiRequestReadCache (Date_now rt) cacheTable req w = Inr (Some r)"
    and "JSON_parse rt (ToString (stringifiedData r)) = Some d"
    and "primaryKey_name cacheTable = ''id''"
    and "get_prop (downcast cacheTable
            [(''id'', JStr (generateCacheId (req_api req) (req_parameters req))),
             (''res'', JNull), (''cacheTime'', JNull), (''ttl'', JNull)]) ''id''
         = JStr (generateCacheId (req_api req) (req_parameters req))"
  shows "requestWithCaching rt cacheTable req ReadCacheAndDelete dataProcessor w =
           (Inr \<lparr>result = JsonNull, cacheTime = JNum 0, ttl = 600, hitCache = True\<rparr>,
            w\<lparr>containers := (containers w)
                 (table_name cacheTable :=
                    AList.delete (JStr (generateCacheId (req_api req) (req_parameters req)))
                      (containers w (table_name cacheTable)))\<rparr>)"
proof -
  obtain x where x: "map_of (containers w (table_name cacheTable))
          (JStr (generateCacheId (req_api req) (req_parameters req))) = Some x"
    using apiRequestReadCache_hit_present [OF assms(1)] by blast
  have d: "apiRequestDeleteCache cacheTable req w =
           (Inr (), w\<lparr>containers := (containers w)
                 (table_name cacheTable :=
                    AList.delete (JStr (generateCacheId (req_api req) (req_parameters req)))
                      (containers w (table_name cacheTable)))\<rparr>)"
    unfolding apiRequestDeleteCache_def Let_def
    by (rule deleteItemFromDb_by_id [OF assms(3) assms(4) x])
  show ?thesis
    by (simp add: requestWithCaching_def readCacheBlock_hit [OF assms(1) assms(2)] d)
qed

theorem ReadCacheAndDelete_hit_returns_null_witness:
  "requestWithCaching exampleRuntime exampleCacheTable listRequest ReadCacheAndDelete
     (listProcessor exampleRuntime ''vmss_A'') (cacheWorld 999000)
   = (Inr \<lparr>result = JsonNull, cacheTime = JNum 0, ttl = 600, hitCache = True\<rparr>,
      \<lparr>containers = (\<lambda>n. []), etag_seq = 1, ts_clock = 1000000, origin_log = []\<rparr>)"
proof -
  have p: "JSON_parse exampleRuntime (ToString (stringifiedData
       \<lparr>res_id = JStr ''listInstances-vmss_A'', res_api = None, res_parameters = None,
        stringifiedData = JStr ''[1]'', res_ttl = JNum 600000,
        res_cacheTime = JNum 999000\<rparr>)) = Some (JsonArr [JsonNum 1])"
    by (simp add: exampleRuntime_def)
  have k: "primaryKey_name exampleCacheTable = ''id''" by (simp add: exampleCacheTable_def)
  have dc: "get_prop (downcast exampleCacheTable
            [(''id'', JStr (generateCacheId (req_api listRequest) (req_parameters listRequest))),
             (''res'', JNull), (''cacheTime'', JNull), (''ttl'', JNull)]) ''id''
         = JStr (generateCacheId (req_api listRequest) (req_parameters listRequest))"
    by (simp add: exampleCacheTable_def get_prop_def)
  have w: "(cacheWorld 999000)\<lparr>containers := (containers (cacheWorld 999000))
                 (table_name exampleCacheTable :=
                    AList.delete (JStr (generateCacheId (req_api listRequest) (req_parameters listRequest)))
                      (containers (cacheWorld 999000) (table_name exampleCacheTable)))\<rparr>
         = \<lparr>containers = (\<lambda>n. []), etag_seq = 1, ts_clock = 1000000, origin_log = []\<rparr>"
    by (auto simp add: cacheWorld_def exampleCacheTable_def listRequest_def generateCacheId_def)
  show ?thesis
    using ReadCacheAndDelete_hit_returns_null [OF example_hit p k dc,
        of "listProcessor exampleRuntime ''vmss_A''"]
    by (simp only: w)
qed

section \<open>The validity of a cache entry\<close>



section \<open>Deleting with the consistency check\<close>

lemma deleteItemFromDb_read_NotFound:
  assumes "validateInput tbl item"
    and "map_of (containers w (table_name tbl))
           (JStr (ToString (get_prop item (primaryKey_name tbl)))) = None"
  shows "deleteItemFromDb tbl item True w = (Inl (DbDeleteError NotFound), w)"
  using assms by (simp add: deleteItemFromDb_def getItemFromDb_absent)

lemma deleteItemFromDb_snapshot_field_differs:
  assumes "validateInput tbl item"
    and "getItemFromDb tbl
           [(primaryKey_name tbl, JStr (ToString (get_prop item (primaryKey_name tbl))))] w
         = Inr (Some s)"
    and "k \<in> set (Object_keys s)" and "\<not> strict_eq (get_prop s k) (get_prop item k)"
  shows "deleteItemFromDb tbl item True w = (Inl (DbDeleteError InconsistentData), w)"
proof -
  have "k \<in> set (keyDiff s item)" using assms(3,4) by (simp add: keyDiff_def)
  then have "length (keyDiff s item) > 0" by (cases "keyDiff s item") auto
  then show ?thesis using assms(1,2) by (simp add: deleteItemFromDb_def)
qed

lemma deleteItemFromDb_snapshot_match:
  assumes "validateInput tbl item"
    and "get_prop item (primaryKey_name tbl) = JStr k" and "get_prop item ''id'' = JStr k"
    and "map_of (containers w (table_name tbl)) (JStr k) = Some r"
    and "convertRecord tbl r = Some s" and "keyDiff s item = []"
  shows "deleteItemFromDb tbl item True w =
           (Inr (), w\<lparr>containers := (containers w)
                        (table_name tbl := AList.delete (JStr k) (containers w (table_name tbl)))\<rparr>)"
    and "getItemFromDb tbl [(primaryKey_name tbl, JStr k)] (snd (deleteItemFromDb tbl item True w))
           = Inl (DbReadError NotFound)"
proof -
  show a: "deleteItemFromDb tbl item True w =
           (Inr (), w\<lparr>containers := (containers w)
                        (table_name tbl := AList.delete (JStr k) (containers w (table_name tbl)))\<rparr>)"
    using assms by (simp add: deleteItemFromDb_def getItemFromDb_present item_delete_def)
  show "getItemFromDb tbl [(primaryKey_name tbl, JStr k)] (snd (deleteItemFromDb tbl item True w))
           = Inl (DbReadError NotFound)"
    by (simp add: a getItemFromDb_absent delete_conv')
qed

text \<open>
  Claim C6. With \<open>ensureConsistency\<close>, \<open>deleteItemFromDb\<close> is to require every field
  of the given item to equal the field of the stored snapshot, and to fail with
  InconsistentData if a single field differs. The code compares the keys of the snapshot
  only (\<open>Object.keys(itemSnapshot)\<close>): a field that the item has and the snapshot has
  not is never looked at. Here the item carries a \<open>description\<close> that the stored record
  does not have, and the record is deleted; a field the other way round is detected.
  (The rest of the claim holds, see the three lemmas above: a missing record is a delete
  error NotFound, a difference in a field of the snapshot is InconsistentData, and after
  a delete with matching snapshot the record cannot be read.)
\<close>

theorem deleteItemFromDb_extra_field_not_compared:
  "deleteItemFromDb exampleTable
     [(''id'', JStr ''k''), (''settingKey'', JStr ''k''), (''settingValue'', JStr ''v''),
      (''description'', JStr ''stale'')] True consistentWorld
   = (Inr (), consistentWorld\<lparr>containers := (containers consistentWorld) (''Settings'' := [])\<rparr>)
   \<and> deleteItemFromDb exampleTable
     [(''id'', JStr ''k''), (''settingKey'', JStr ''k'')] True consistentWorld
   = (Inl (DbDeleteError InconsistentData), consistentWorld)"
  by (simp add: deleteItemFromDb_def getItemFromDb_def item_read_def item_delete_def keyDiff_def
      Object_keys_def get_prop_def exampleTable_def consistentWorld_def)

section \<open>The id of a saved item\<close>




section \<open>The cache id\<close>

text \<open>
  Claim C8, as stated: distinct parameter sequences, the same parameters in a different
  order included, yield distinct ids. The id is a plain join with \<open>-\<close>, so it fails when
  a parameter contains the separator: \<open>x, x-x\<close> and \<open>x-x, x\<close> are the same parameters
  in a different order and have the same id.
\<close>

theorem generateCacheId_collision:
  "generateCacheId ''describeInstance'' [''x'', ''x-x'']
     = generateCacheId ''describeInstance'' [''x-x'', ''x'']
   \<and> [''x'', ''x-x''] \<noteq> [''x-x'', ''x'']"
  by (simp add: generateCacheId_def)

text \<open>
  Claim C8, amended: \<open>generateCacheId\<close> is a function of the api name and the
  parameters (equal inputs give equal ids), the join of them with \<open>-\<close>; when neither
  the api names nor the parameters contain \<open>-\<close>, two ids are equal only if the api names
  are equal and the parameter sequences are equal, order included.
\<close>

theorem generateCacheId_injective_without_dash:
  assumes "CHR ''-'' \<notin> set api" "CHR ''-'' \<notin> set api'"
    and "\<forall>p\<in>set parameters. CHR ''-'' \<notin> set p" "\<forall>p\<in>set parameters'. CHR ''-'' \<notin> set p"
  shows "generateCacheId api parameters = join ''-'' (api # parameters)
       \<and> (generateCacheId api parameters = generateCacheId api' parameters')
         = (api = api' \<and> parameters = parameters')"
proof -
  have j: "generateCacheId a ps = join ''-'' (a # ps)" for a ps
    by (simp add: generateCacheId_def)
  have "api # parameters = api' # parameters'"
    if "generateCacheId api parameters = generateCacheId api' parameters'"
    using that assms join_inj [of "api # parameters" "api' # parameters'"] by (simp add: j)
  then show ?thesis using j by auto
qed

theorem generateCacheId_injective_without_dash_witness:
  "generateCacheId ''listInstances'' [''vmss_A'', ''3''] = ''listInstances-vmss_A-3''
   \<and> generateCacheId ''listInstances'' [''vmss_A'', ''3'']
       \<noteq> generateCacheId ''listInstances'' [''3'', ''vmss_A'']"
proof -
  have h: "CHR ''-'' \<notin> set ''listInstances''"
    "\<forall>p\<in>set [''vmss_A'', ''3'']. CHR ''-'' \<notin> set p"
    "\<forall>p\<in>set [''3'', ''vmss_A'']. CHR ''-'' \<notin> set p"
    by simp_all
  note t = generateCacheId_injective_without_dash [OF h(1) h(1) h(2) h(3)]
  have a: "generateCacheId ''listInstances'' [''vmss_A'', ''3''] = ''listInstances-vmss_A-3''"
    using t [THEN conjunct1] by simp
  have b: "generateCacheId ''listInstances'' [''vmss_A'', ''3'']
       \<noteq> generateCacheId ''listInstances'' [''3'', ''vmss_A'']"
    unfolding t [THEN conjunct2] by simp
  show ?thesis using a b by blast
qed

section \<open>The calls to the cloud API\<close>

lemma items_upsert_log: "origin_log (snd (items_upsert w c s opts)) = origin_log w"
  by (simp add: items_upsert_def Let_def)

lemma saveItemToDb_log:
  "origin_log (snd (saveItemToDb tbl item condition ensureDataConsistency w)) = origin_log w"
proof -
  have "\<And>opts. origin_log (snd (items_upsert w (table_name tbl) (saveItem_of tbl item) opts))
          = origin_log w"
    by (rule items_upsert_log)
  then show ?thesis
    by (simp add: saveItemToDb_def Let_def case_prod_unfold split: sum.splits option.splits)
qed

lemma item_delete_log: "origin_log (snd (item_delete w c k)) = origin_log w"
  by (simp add: item_delete_def split: option.splits)

lemma deleteItemFromDb_log:
  "origin_log (snd (deleteItemFromDb tbl item ensureDataConsistency w)) = origin_log w"
  using item_delete_log [of w "table_name tbl" "get_prop item ''id''"]
  by (simp add: deleteItemFromDb_def case_prod_unfold split: sum.splits)

lemma apiRequestDeleteCache_log:
  "origin_log (snd (apiRequestDeleteCache cacheTable req w)) = origin_log w"
  by (simp add: apiRequestDeleteCache_def Let_def deleteItemFromDb_log)

lemma apiRequestSaveCache_log:
  "origin_log (snd (apiRequestSaveCache cacheTable res w)) = origin_log w"
proof -
  have "\<And>item. origin_log (snd (saveItemToDb cacheTable item Upsert False w)) = origin_log w"
    by (rule saveItemToDb_log)
  then show ?thesis
    by (simp add: apiRequestSaveCache_def Let_def case_prod_unfold split: sum.splits option.splits)
qed

text \<open>The engine calls the producer at most once and makes no other call.\<close>

lemma requestWithCaching_log:
  "origin_log (snd (requestWithCaching rt cacheTable req cacheOption dataProcessor w)) = origin_log w
   \<or> origin_log (snd (requestWithCaching rt cacheTable req cacheOption dataProcessor w))
       = origin_log (snd (dataProcessor w))"
proof -
  have d: "origin_log (snd (apiRequestDeleteCache cacheTable req w)) = origin_log w"
    by (rule apiRequestDeleteCache_log)
  have s: "\<And>r. origin_log (snd (apiRequestSaveCache cacheTable r (snd (dataProcessor w))))
             = origin_log (snd (dataProcessor w))"
    by (rule apiRequestSaveCache_log)
  show ?thesis
    using d s
    by (simp add: requestWithCaching_def Let_def case_prod_unfold split: sum.splits option.splits)
qed

lemma requestWithCaching_ReadApiOnly:
  "requestWithCaching rt cacheTable req ReadApiOnly dataProcessor w =
     (case dataProcessor w of
        (Inl e, w') \<Rightarrow> (Inl e, w')
      | (Inr data, w') \<Rightarrow>
          (Inr \<lparr>result = data, cacheTime = JUndefined, ttl = 600, hitCache = False\<rparr>, w'))"
  by (simp add: requestWithCaching_def readCacheBlock_def case_prod_unfold split: sum.splits)

lemma getProcessor_log:
  "origin_log (snd (getProcessor rt g i w)) = origin_log w @ [VmssGet (RESOURCE_TAG_PREFIX rt) g i]"
  by (simp add: getProcessor_def Let_def split: sum.splits)

lemma listProcessor_log:
  "origin_log (snd (listProcessor rt g w)) = origin_log w @ [VmssList (RESOURCE_TAG_PREFIX rt) g]"
  by (simp add: listProcessor_def Let_def split: sum.splits)

lemma find_vmId_sound:
  "find_vmId ident vs = Inr v \<Longrightarrow>
   v = JsonUndefined \<or> (v \<in> set vs \<and> json_member v ''vmId'' = Inr (JsonStr ident))"
  by (induction vs) (auto split: sum.splits if_splits)

lemma describeInstance_nonnumeric:
  "\<not> isFinite_Number rt ident \<Longrightarrow>
   snd (describeInstance rt cacheTable g ident cacheOption w)
     = snd (listInstances rt cacheTable g cacheOption w)"
  by (simp add: describeInstance_def case_prod_unfold split: sum.splits)

text \<open>
  Whatever the policy, \<open>describeInstance\<close> makes at most one call to the cloud: the
  direct single-instance call for a numeric id (one for which \<open>isFinite(Number(id))\<close>
  holds), the list call of \<open>listInstances\<close> otherwise. Under ReadApiOnly it makes that
  call, and for a non-numeric id its result is the first element of the list whose
  \<open>vmId\<close> is the id (or \<open>undefined\<close>), found locally.
\<close>

lemma describeInstance_call_kind:
  "(isFinite_Number rt ident \<longrightarrow>
      origin_log (snd (describeInstance rt cacheTable g ident cacheOption w))
        \<in> {origin_log w, origin_log w @ [VmssGet (RESOURCE_TAG_PREFIX rt) g ident]}
      \<and> origin_log (snd (describeInstance rt cacheTable g ident ReadApiOnly w))
        = origin_log w @ [VmssGet (RESOURCE_TAG_PREFIX rt) g ident])
   \<and> (\<not> isFinite_Number rt ident \<longrightarrow>
      origin_log (snd (describeInstance rt cacheTable g ident cacheOption w))
        \<in> {origin_log w, origin_log w @ [VmssList (RESOURCE_TAG_PREFIX rt) g]}
      \<and> origin_log (snd (describeInstance rt cacheTable g ident ReadApiOnly w))
        = origin_log w @ [VmssList (RESOURCE_TAG_PREFIX rt) g]
      \<and> (\<forall>found. fst (describeInstance rt cacheTable g ident cacheOption w) = Inr found \<longrightarrow>
            (\<exists>listResult vs.
               fst (listInstances rt cacheTable g cacheOption w) = Inr listResult
               \<and> result listResult = JsonArr vs
               \<and> find_vmId ident vs = Inr (result found)
               \<and> (result found = JsonUndefined
                    \<or> (result found \<in> set vs
                        \<and> json_member (result found) ''vmId'' = Inr (JsonStr ident)))
               \<and> hitCache found = hitCache listResult
               \<and> cacheTime found = cacheTime listResult)))"
proof -
  have n1: "isFinite_Number rt ident \<Longrightarrow>
      origin_log (snd (describeInstance rt cacheTable g ident cacheOption w))
        \<in> {origin_log w, origin_log w @ [VmssGet (RESOURCE_TAG_PREFIX rt) g ident]}"
    using requestWithCaching_log [of rt cacheTable
        "\<lparr>req_api = ''describeInstance'', req_parameters = [g, ident], req_ttl = Some 600\<rparr>"
        cacheOption "getProcessor rt g ident" w]
    by (auto simp add: describeInstance_def getProcessor_log)
  have n2: "isFinite_Number rt ident \<Longrightarrow>
      origin_log (snd (describeInstance rt cacheTable g ident ReadApiOnly w))
        = origin_log w @ [VmssGet (RESOURCE_TAG_PREFIX rt) g ident]"
    using getProcessor_log [of rt g ident w]
    by (simp add: describeInstance_def requestWithCaching_ReadApiOnly case_prod_unfold
        split: sum.splits)
  have l1: "\<not> isFinite_Number rt ident \<Longrightarrow>
      origin_log (snd (describeInstance rt cacheTable g ident cacheOption w))
        \<in> {origin_log w, origin_log w @ [VmssList (RESOURCE_TAG_PREFIX rt) g]}"
    using requestWithCaching_log [of rt cacheTable
        "\<lparr>req_api = ''listInstances'', req_parameters = [g], req_ttl = Some 600\<rparr>"
        cacheOption "listProcessor rt g" w]
    by (auto simp add: describeInstance_nonnumeric listInstances_def listProcessor_log)
  have l2: "\<not> isFinite_Number rt ident \<Longrightarrow>
      origin_log (snd (describeInstance rt cacheTable g ident ReadApiOnly w))
        = origin_log w @ [VmssList (RESOURCE_TAG_PREFIX rt) g]"
    using listProcessor_log [of rt g w]
    by (simp add: describeInstance_nonnumeric listInstances_def requestWithCaching_ReadApiOnly
        case_prod_unfold split: sum.splits)
  have l3: "\<not> isFinite_Number rt ident \<Longrightarrow>
      fst (describeInstance rt cacheTable g ident cacheOption w) = Inr found \<Longrightarrow>
            (\<exists>listResult vs.
               fst (listInstances rt cacheTable g cacheOption w) = Inr listResult
               \<and> result listResult = JsonArr vs
               \<and> find_vmId ident vs = Inr (result found)
               \<and> (result found = JsonUndefined
                    \<or> (result found \<in> set vs
                        \<and> json_member (result found) ''vmId'' = Inr (JsonStr ident)))
               \<and> hitCache found = hitCache listResult
               \<and> cacheTime found = cacheTime listResult)" for found
    using find_vmId_sound [of ident _ "result found"]
    by (auto simp add: describeInstance_def result_find_def case_prod_unfold
        split: sum.splits json.splits)
  show ?thesis using n1 n2 l1 l2 l3 by blast
qed

lemma describeInstance_call_kind_example:
  "origin_log (snd (describeInstance exampleRuntime exampleCacheTable ''vmss_A'' ''3''
                      ReadApiOnly emptyWorld))
     = [VmssGet ''rg'' ''vmss_A'' ''3'']
   \<and> origin_log (snd (describeInstance exampleRuntime exampleCacheTable ''vmss_A'' ''vm-guid-xyz''
                      ReadApiOnly emptyWorld))
     = [VmssList ''rg'' ''vmss_A'']
   \<and> fst (describeInstance exampleRuntime exampleCacheTable ''vmss_A'' ''vm-guid-xyz''
            ReadApiOnly emptyWorld)
     = Inr \<lparr>result = JsonObj [(''instanceId'', JsonStr ''3''), (''vmId'', JsonStr ''vm-guid-xyz'')],
            cacheTime = JUndefined, ttl = 600, hitCache = False\<rparr>"
proof -
  have num: "isFinite_Number exampleRuntime ''3''"
    and nonnum: "\<not> isFinite_Number exampleRuntime ''vm-guid-xyz''"
    by (simp_all add: exampleRuntime_def)
  have rg: "RESOURCE_TAG_PREFIX exampleRuntime = ''rg''" and e: "origin_log emptyWorld = []"
    by (simp_all add: exampleRuntime_def emptyWorld_def)
  have a: "origin_log (snd (describeInstance exampleRuntime exampleCacheTable ''vmss_A'' ''3''
                      ReadApiOnly emptyWorld)) = [VmssGet ''rg'' ''vmss_A'' ''3'']"
    using describeInstance_call_kind [THEN conjunct1, rule_format, OF num, THEN conjunct2,
        of exampleCacheTable "''vmss_A''" emptyWorld]
    by (simp add: rg e)
  have b: "origin_log (snd (describeInstance exampleRuntime exampleCacheTable ''vmss_A''
                      ''vm-guid-xyz'' ReadApiOnly emptyWorld)) = [VmssList ''rg'' ''vmss_A'']"
    using describeInstance_call_kind [THEN conjunct2, rule_format, OF nonnum,
        THEN conjunct2, THEN conjunct1, of exampleCacheTable "''vmss_A''" emptyWorld]
    by (simp add: rg e)
  have c: "fst (describeInstance exampleRuntime exampleCacheTable ''vmss_A'' ''vm-guid-xyz''
            ReadApiOnly emptyWorld)
     = Inr \<lparr>result = JsonObj [(''instanceId'', JsonStr ''3''), (''vmId'', JsonStr ''vm-guid-xyz'')],
            cacheTime = JUndefined, ttl = 600, hitCache = False\<rparr>"
    using nonnum
    by (simp add: describeInstance_def listInstances_def requestWithCaching_ReadApiOnly
        example_listProcessor exampleVms_def result_find_def)
  show ?thesis using a b c by blast
qed

lemma apiRequestReadCache_origin_log:
  "apiRequestReadCache now cacheTable req (w\<lparr>origin_log := l\<rparr>)
     = apiRequestReadCache now cacheTable req w"
  by (simp add: apiRequestReadCache_def getItemFromDb_def item_read_def)

lemma example_instance_expired:
  "apiRequestReadCache (Date_now exampleRuntime) exampleCacheTable
     \<lparr>req_api = ''describeInstance'', req_parameters = [''vmss_A'', ''3''], req_ttl = Some 600\<rparr>
     (instanceCacheWorld 400000)
     = Inr None"
  by (simp add: apiRequestReadCache_def getItemFromDb_def item_read_def exampleCacheTable_def
      instanceCacheWorld_def generateCacheId_def set_prop_def get_prop_def
      exampleRuntime_def timeToLive_def optional_number_def js_or_def js_gt_number_def
      js_add_def js_mul_def)

text \<open>
  Claim C9. \<open>describeInstance\<close> with a numeric id is to issue a single direct
  single-instance origin call, and with a non-numeric id a list call whose result it
  filters locally by \<open>vmId\<close>, never making a second origin call for the same cache
  window. Under the default policy ReadCacheFirst the code does not do so when the cache
  has no valid entry. With no row in the store, the NotFound error of \<open>getItemFromDb\<close>
  leaves \<open>describeInstance\<close> before any call is made. With an expired row the one call
  is made (the direct one for a numeric id, the list one otherwise), and then the
  assignment to a property of \<open>res\<close>, which is \<open>null\<close>, fails with a TypeError: no
  result is returned, nothing is filtered and nothing is cached, so that the same
  \<open>describeInstance\<close> repeated at once makes the same call a second time.
\<close>

theorem describeInstance_ReadCacheFirst_without_entry:
  "(isFinite_Number rt ident \<longrightarrow>
      map_of (containers w (table_name cacheTable))
        (JStr (generateCacheId ''describeInstance'' [g, ident])) = None \<longrightarrow>
      describeInstance rt cacheTable g ident ReadCacheFirst w = (Inl (DbReadError NotFound), w))
   \<and> (\<not> isFinite_Number rt ident \<longrightarrow>
      map_of (containers w (table_name cacheTable))
        (JStr (generateCacheId ''listInstances'' [g])) = None \<longrightarrow>
      describeInstance rt cacheTable g ident ReadCacheFirst w = (Inl (DbReadError NotFound), w))
   \<and> (isFinite_Number rt ident \<longrightarrow>
      apiRequestReadCache (Date_now rt) cacheTable
        \<lparr>req_api = ''describeInstance'', req_parameters = [g, ident], req_ttl = Some 600\<rparr> w
        = Inr None \<longrightarrow>
      vmss_get rt (RESOURCE_TAG_PREFIX rt) g ident = Inr response \<longrightarrow> truthy_json response \<longrightarrow>
      describeInstance rt cacheTable g ident ReadCacheFirst w
        = (Inl TypeError,
           w\<lparr>origin_log := origin_log w @ [VmssGet (RESOURCE_TAG_PREFIX rt) g ident]\<rparr>)
      \<and> describeInstance rt cacheTable g ident ReadCacheFirst
           (w\<lparr>origin_log := origin_log w @ [VmssGet (RESOURCE_TAG_PREFIX rt) g ident]\<rparr>)
        = (Inl TypeError,
           w\<lparr>origin_log := origin_log w @ [VmssGet (RESOURCE_TAG_PREFIX rt) g ident,
                                             VmssGet (RESOURCE_TAG_PREFIX rt) g ident]\<rparr>))
   \<and> (\<not> isFinite_Number rt ident \<longrightarrow>
      apiRequestReadCache (Date_now rt) cacheTable
        \<lparr>req_api = ''listInstances'', req_parameters = [g], req_ttl = Some 600\<rparr> w
        = Inr None \<longrightarrow>
      vmss_list rt (RESOURCE_TAG_PREFIX rt) g = Inr body \<longrightarrow> truthy_json body \<longrightarrow>
      describeInstance rt cacheTable g ident ReadCacheFirst w
        = (Inl TypeError,
           w\<lparr>origin_log := origin_log w @ [VmssList (RESOURCE_TAG_PREFIX rt) g]\<rparr>)
      \<and> describeInstance rt cacheTable g ident ReadCacheFirst
           (w\<lparr>origin_log := origin_log w @ [VmssList (RESOURCE_TAG_PREFIX rt) g]\<rparr>)
        = (Inl TypeError,
           w\<lparr>origin_log := origin_log w @ [VmssList (RESOURCE_TAG_PREFIX rt) g,
                                             VmssList (RESOURCE_TAG_PREFIX rt) g]\<rparr>))"
proof -
  have absent: "requestWithCaching rt cacheTable req ReadCacheFirst dp w
                  = (Inl (DbReadError NotFound), w)"
    if "map_of (containers w (table_name cacheTable))
          (JStr (generateCacheId (req_api req) (req_parameters req))) = None" for req dp
    using that
    by (simp add: requestWithCaching_def readCacheBlock_error apiRequestReadCache_absent)
  have miss: "requestWithCaching rt cacheTable req ReadCacheFirst dp v = (Inl TypeError, v')"
    if "apiRequestReadCache (Date_now rt) cacheTable req v = Inr None"
      and "dp v = (Inr data, v')" and "truthy_json data" for req dp v v' data
    using that by (simp add: requestWithCaching_def readCacheBlock_miss)
  have a: "isFinite_Number rt ident \<Longrightarrow>
      map_of (containers w (table_name cacheTable))
        (JStr (generateCacheId ''describeInstance'' [g, ident])) = None \<Longrightarrow>
      describeInstance rt cacheTable g ident ReadCacheFirst w = (Inl (DbReadError NotFound), w)"
    by (simp add: describeInstance_def absent)
  have b: "\<not> isFinite_Number rt ident \<Longrightarrow>
      map_of (containers w (table_name cacheTable))
        (JStr (generateCacheId ''listInstances'' [g])) = None \<Longrightarrow>
      describeInstance rt cacheTable g ident ReadCacheFirst w = (Inl (DbReadError NotFound), w)"
    by (simp add: describeInstance_def listInstances_def absent)
  have c: "describeInstance rt cacheTable g ident ReadCacheFirst v
        = (Inl TypeError, v\<lparr>origin_log := origin_log v @ [VmssGet (RESOURCE_TAG_PREFIX rt) g ident]\<rparr>)"
    if "isFinite_Number rt ident"
      and "apiRequestReadCache (Date_now rt) cacheTable
        \<lparr>req_api = ''describeInstance'', req_parameters = [g, ident], req_ttl = Some 600\<rparr> v
        = Inr None"
      and "vmss_get rt (RESOURCE_TAG_PREFIX rt) g ident = Inr response" and "truthy_json response"
    for v response
  proof -
    have "getProcessor rt g ident v
        = (Inr response, v\<lparr>origin_log := origin_log v @ [VmssGet (RESOURCE_TAG_PREFIX rt) g ident]\<rparr>)"
      using that(3) by (simp add: getProcessor_def)
    from miss [where dp = "getProcessor rt g ident", OF that(2) this that(4)] that(1) show ?thesis
      by (simp add: describeInstance_def)
  qed
  have d: "describeInstance rt cacheTable g ident ReadCacheFirst v
        = (Inl TypeError, v\<lparr>origin_log := origin_log v @ [VmssList (RESOURCE_TAG_PREFIX rt) g]\<rparr>)"
    if "\<not> isFinite_Number rt ident"
      and "apiRequestReadCache (Date_now rt) cacheTable
        \<lparr>req_api = ''listInstances'', req_parameters = [g], req_ttl = Some 600\<rparr> v
        = Inr None"
      and "vmss_list rt (RESOURCE_TAG_PREFIX rt) g = Inr body" and "truthy_json body"
    for v body
  proof -
    have "listProcessor rt g v
        = (Inr body, v\<lparr>origin_log := origin_log v @ [VmssList (RESOURCE_TAG_PREFIX rt) g]\<rparr>)"
      using that(3,4) by (simp add: listProcessor_def)
    from miss [where dp = "listProcessor rt g", OF that(2) this that(4)] that(1) show ?thesis
      by (simp add: describeInstance_def listInstances_def)
  qed
  have c2: "describeInstance rt cacheTable g ident ReadCacheFirst w
        = (Inl TypeError,
           w\<lparr>origin_log := origin_log w @ [VmssGet (RESOURCE_TAG_PREFIX rt) g ident]\<rparr>)
      \<and> describeInstance rt cacheTable g ident ReadCacheFirst
           (w\<lparr>origin_log := origin_log w @ [VmssGet (RESOURCE_TAG_PREFIX rt) g ident]\<rparr>)
        = (Inl TypeError,
           w\<lparr>origin_log := origin_log w @ [VmssGet (RESOURCE_TAG_PREFIX rt) g ident,
                                             VmssGet (RESOURCE_TAG_PREFIX rt) g ident]\<rparr>)"
    if h: "isFinite_Number rt ident"
      "apiRequestReadCache (Date_now rt) cacheTable
        \<lparr>req_api = ''describeInstance'', req_parameters = [g, ident], req_ttl = Some 600\<rparr> w
        = Inr None"
      "vmss_get rt (RESOURCE_TAG_PREFIX rt) g ident = Inr response" "truthy_json response"
    for response
    using c [OF h] c [of "w\<lparr>origin_log := origin_log w @ [VmssGet (RESOURCE_TAG_PREFIX rt) g ident]\<rparr>"
                         response] h
    by (simp add: apiRequestReadCache_origin_log)
  have d2: "describeInstance rt cacheTable g ident ReadCacheFirst w
        = (Inl TypeError,
           w\<lparr>origin_log := origin_log w @ [VmssList (RESOURCE_TAG_PREFIX rt) g]\<rparr>)
      \<and> describeInstance rt cacheTable g ident ReadCacheFirst
           (w\<lparr>origin_log := origin_log w @ [VmssList (RESOURCE_TAG_PREFIX rt) g]\<rparr>)
        = (Inl TypeError,
           w\<lparr>origin_log := origin_log w @ [VmssList (RESOURCE_TAG_PREFIX rt) g,
                                             VmssList (RESOURCE_TAG_PREFIX rt) g]\<rparr>)"
    if h: "\<not> isFinite_Number rt ident"
      "apiRequestReadCache (Date_now rt) cacheTable
        \<lparr>req_api = ''listInstances'', req_parameters = [g], req_ttl = Some 600\<rparr> w
        = Inr None"
      "vmss_list rt (RESOURCE_TAG_PREFIX rt) g = Inr body" "truthy_json body"
    for body
    using d [OF h] d [of "w\<lparr>origin_log := origin_log w @ [VmssList (RESOURCE_TAG_PREFIX rt) g]\<rparr>"
                         body] h
    by (simp add: apiRequestReadCache_origin_log)
  show ?thesis using a b c2 d2 by blast
qed

theorem describeInstance_ReadCacheFirst_without_entry_witness:
  "describeInstance exampleRuntime exampleCacheTable ''vmss_A'' ''3'' ReadCacheFirst emptyWorld
     = (Inl (DbReadError NotFound), emptyWorld)
   \<and> describeInstance exampleRuntime exampleCacheTable ''vmss_A'' ''vm-guid-xyz'' ReadCacheFirst
       emptyWorld
     = (Inl (DbReadError NotFound), emptyWorld)
   \<and> describeInstance exampleRuntime exampleCacheTable ''vmss_A'' ''3'' ReadCacheFirst
       ((instanceCacheWorld 400000)\<lparr>origin_log := [VmssGet ''rg'' ''vmss_A'' ''3'']\<rparr>)
     = (Inl TypeError,
        (instanceCacheWorld 400000)
          \<lparr>origin_log := [VmssGet ''rg'' ''vmss_A'' ''3'', VmssGet ''rg'' ''vmss_A'' ''3'']\<rparr>)
   \<and> describeInstance exampleRuntime exampleCacheTable ''vmss_A'' ''vm-guid-xyz'' ReadCacheFirst
       (cacheWorld 400000)
     = (Inl TypeError, (cacheWorld 400000)\<lparr>origin_log := [VmssList ''rg'' ''vmss_A'']\<rparr>)
   \<and> describeInstance exampleRuntime exampleCacheTable ''vmss_A'' ''vm-guid-xyz'' ReadCacheFirst
       ((cacheWorld 400000)\<lparr>origin_log := [VmssList ''rg'' ''vmss_A'']\<rparr>)
     = (Inl TypeError,
        (cacheWorld 400000)
          \<lparr>origin_log := [VmssList ''rg'' ''vmss_A'', VmssList ''rg'' ''vmss_A'']\<rparr>)"
proof -
  have num: "isFinite_Number exampleRuntime ''3''"
    and nonnum: "\<not> isFinite_Number exampleRuntime ''vm-guid-xyz''"
    by (simp_all add: exampleRuntime_def)
  have rg: "RESOURCE_TAG_PREFIX exampleRuntime = ''rg''"
    by (simp add: exampleRuntime_def)
  have e1: "map_of (containers emptyWorld (table_name exampleCacheTable))
        (JStr (generateCacheId ''describeInstance'' [''vmss_A'', ''3''])) = None"
    and e2: "map_of (containers emptyWorld (table_name exampleCacheTable))
        (JStr (generateCacheId ''listInstances'' [''vmss_A''])) = None"
    by (simp_all add: emptyWorld_def)
  have g: "vmss_get exampleRuntime (RESOURCE_TAG_PREFIX exampleRuntime) ''vmss_A'' ''3''
             = Inr (JsonObj [(''instanceId'', JsonStr ''3'')])"
    and l: "vmss_list exampleRuntime (RESOURCE_TAG_PREFIX exampleRuntime) ''vmss_A'' = Inr exampleVms"
    by (simp_all add: exampleRuntime_def)
  have tg: "truthy_json (JsonObj [(''instanceId'', JsonStr ''3'')])"
    and tl: "truthy_json exampleVms"
    by (simp_all add: exampleVms_def)
  have x: "apiRequestReadCache (Date_now exampleRuntime) exampleCacheTable
     \<lparr>req_api = ''listInstances'', req_parameters = [''vmss_A''], req_ttl = Some 600\<rparr>
     (cacheWorld 400000) = Inr None"
    using example_expired by (simp add: listRequest_def)
  have o1: "origin_log (instanceCacheWorld 400000) = []"
    and o2: "origin_log (cacheWorld 400000) = []"
    by (simp_all add: instanceCacheWorld_def cacheWorld_def)
  note t = describeInstance_ReadCacheFirst_without_entry
  have a: "describeInstance exampleRuntime exampleCacheTable ''vmss_A'' ''3'' ReadCacheFirst emptyWorld
     = (Inl (DbReadError NotFound), emptyWorld)"
    using t [THEN conjunct1, rule_format, OF num e1] .
  have b: "describeInstance exampleRuntime exampleCacheTable ''vmss_A'' ''vm-guid-xyz''
             ReadCacheFirst emptyWorld = (Inl (DbReadError NotFound), emptyWorld)"
    using t [THEN conjunct2, THEN conjunct1, rule_format, OF nonnum e2] .
  have c: "describeInstance exampleRuntime exampleCacheTable ''vmss_A'' ''3'' ReadCacheFirst
       ((instanceCacheWorld 400000)\<lparr>origin_log := [VmssGet ''rg'' ''vmss_A'' ''3'']\<rparr>)
     = (Inl TypeError,
        (instanceCacheWorld 400000)
          \<lparr>origin_log := [VmssGet ''rg'' ''vmss_A'' ''3'', VmssGet ''rg'' ''vmss_A'' ''3'']\<rparr>)"
    using t [THEN conjunct2, THEN conjunct2, THEN conjunct1, rule_format,
             OF num example_instance_expired g tg, THEN conjunct2]
    by (simp add: rg o1)
  have d: "describeInstance exampleRuntime exampleCacheTable ''vmss_A'' ''vm-guid-xyz'' ReadCacheFirst
       (cacheWorld 400000)
     = (Inl TypeError, (cacheWorld 400000)\<lparr>origin_log := [VmssList ''rg'' ''vmss_A'']\<rparr>)
   \<and> describeInstance exampleRuntime exampleCacheTable ''vmss_A'' ''vm-guid-xyz'' ReadCacheFirst
       ((cacheWorld 400000)\<lparr>origin_log := [VmssList ''rg'' ''vmss_A'']\<rparr>)
     = (Inl TypeError,
        (cacheWorld 400000)
          \<lparr>origin_log := [VmssList ''rg'' ''vmss_A'', VmssList ''rg'' ''vmss_A'']\<rparr>)"
    using t [THEN conjunct2, THEN conjunct2, THEN conjunct2, rule_format,
             OF nonnum x l tl]
    by (simp add: rg o2)
  show ?thesis using a b c d by blast
qed

section \<open>The time to live across a write and a read\<close>








end
